theory Spec2Isabelle
  imports Complex_Main "HOL-Library.Sublist"
begin

section \<open>Python values: strings, floats, exceptions\<close>

text \<open>
  A Python \<open>str\<close> is a sequence of Unicode code points; it is modelled as a list of
  natural numbers, one per code point, so that \<open>length\<close>, \<open>in\<close> and the regular
  expressions count what Python counts. ASCII literals are written through \<open>asc\<close>.
\<close>

type_synonym ustr = "nat list"

definition asc :: "string \<Rightarrow> ustr" where
  "asc s = map of_char s"

text \<open>
  A Python \<open>float\<close> is an IEEE double or one of the three special values. Finite doubles
  are carried as the real number they denote (the sign of zero is not kept).
\<close>

datatype pyfloat = Fin real | PInf | NInf | NaN

datatype pyerr = AttributeError | StatisticsError

datatype unit_word = Ty | Trieu

text \<open>
  What the code takes from the Python runtime and from pandas and does not define itself:
  \<open>str.lower\<close> (full Unicode lower-casing of a string), the simple lower-case mapping of
  one code point that \<open>re.I\<close> compares with, the builtin \<open>float\<close> on an arbitrary
  string (\<open>None\<close> where it raises \<open>ValueError\<close>), and the conversion of one cell by
  \<open>pd.to_numeric(errors='coerce')\<close> (\<open>NaN\<close> where the cell is missing or is not a number).
\<close>

record pylib =
  lower :: "ustr \<Rightarrow> ustr"
  tolower :: "nat \<Rightarrow> nat"
  float_of :: "ustr \<Rightarrow> pyfloat option"
  to_numeric :: "ustr option \<Rightarrow> pyfloat"

subsection \<open>String operations\<close>

text \<open>\<open>str.isspace\<close> of one code point; the class \<open>\s\<close> of \<open>re\<close> on \<open>str\<close> is the same set.\<close>

definition isspace :: "nat \<Rightarrow> bool" where
  "isspace c \<longleftrightarrow>
     (9 \<le> c \<and> c \<le> 13) \<or> (28 \<le> c \<and> c \<le> 32) \<or> c = 133 \<or> c = 160 \<or> c = 5760
     \<or> (8192 \<le> c \<and> c \<le> 8202) \<or> c = 8232 \<or> c = 8233 \<or> c = 8239 \<or> c = 8287
     \<or> c = 12288"

definition strip_by :: "(nat \<Rightarrow> bool) \<Rightarrow> ustr \<Rightarrow> ustr" where
  "strip_by P s = rev (dropWhile P (rev (dropWhile P s)))"

text \<open>\<open>s.strip()\<close>\<close>

definition strip :: "ustr \<Rightarrow> ustr" where
  "strip s = strip_by isspace s"

text \<open>\<open>sub in s\<close>\<close>

fun contains :: "ustr \<Rightarrow> ustr \<Rightarrow> bool" where
  "contains sub [] = (sub = [])"
| "contains sub (c # cs) = (prefix sub (c # cs) \<or> contains sub cs)"

text \<open>\<open>s.replace(a, b)\<close> for a one-character \<open>a\<close>\<close>

definition replace_char :: "nat \<Rightarrow> ustr \<Rightarrow> ustr \<Rightarrow> ustr" where
  "replace_char a b s = concat (map (\<lambda>c. if c = a then b else [c]) s)"

definition is_digit :: "nat \<Rightarrow> bool" where
  "is_digit c \<longleftrightarrow> 48 \<le> c \<and> c \<le> 57"

subsection \<open>Floats\<close>

fun bit_length :: "nat \<Rightarrow> nat" where
  "bit_length n = (if n = 0 then 0 else Suc (bit_length (n div 2)))"

declare bit_length.simps [simp del]

definition pow2 :: "int \<Rightarrow> real" where
  "pow2 e = (if 0 \<le> e then 2 ^ nat e else 1 / 2 ^ nat (- e))"

text \<open>
  For \<open>a > 0\<close>, the exponent \<open>e\<close> with \<open>2^e \<le> a < 2^(e+1)\<close>: the bit length of the
  integer part where \<open>a \<ge> 1\<close>, and that of the reciprocal rounded up otherwise.
\<close>

definition ilog2 :: "real \<Rightarrow> int" where
  "ilog2 a = (if 1 \<le> a then int (bit_length (nat \<lfloor>a\<rfloor>)) - 1
              else - int (bit_length (nat (\<lceil>1 / a\<rceil> - 1))))"

definition round_half_even :: "real \<Rightarrow> int" where
  "round_half_even x = (let f = \<lfloor>x\<rfloor>; d = x - of_int f
                        in if d < 1 / 2 then f else if 1 / 2 < d then f + 1
                           else if even f then f else f + 1)"

text \<open>
  Rounding of a non-negative number to the nearest double, ties to even, with the
  subnormal range below \<open>2^-1022\<close> and overflow to infinity from \<open>2^1024 - 2^970\<close> on.
\<close>

definition round_mag :: "real \<Rightarrow> real option" where
  "round_mag a = (if a = 0 then Some 0
                  else let e = max (ilog2 a) (- 1022);
                           q = pow2 (e - 52);
                           v = of_int (round_half_even (a / q)) * q
                       in if pow2 1024 \<le> v then None else Some v)"

definition double_of_rat :: "real \<Rightarrow> pyfloat" where
  "double_of_rat r = (if 0 \<le> r
                      then (case round_mag r of None \<Rightarrow> PInf | Some v \<Rightarrow> Fin v)
                      else (case round_mag (- r) of None \<Rightarrow> NInf | Some v \<Rightarrow> Fin (- v)))"

text \<open>Comparison of a float with a finite constant; every comparison with NaN is false.\<close>

fun fgt :: "pyfloat \<Rightarrow> real \<Rightarrow> bool" where
  "fgt (Fin r) c = (c < r)"
| "fgt PInf c = True"
| "fgt NInf c = False"
| "fgt NaN c = False"

fun flt :: "pyfloat \<Rightarrow> real \<Rightarrow> bool" where
  "flt (Fin r) c = (r < c)"
| "flt PInf c = False"
| "flt NInf c = True"
| "flt NaN c = False"

fun fle :: "pyfloat \<Rightarrow> real \<Rightarrow> bool" where
  "fle (Fin r) c = (r \<le> c)"
| "fle PInf c = False"
| "fle NInf c = True"
| "fle NaN c = False"

text \<open>\<open>x * c\<close> and \<open>x / c\<close> for a finite constant \<open>c > 0\<close>\<close>

fun fmul_const :: "pyfloat \<Rightarrow> real \<Rightarrow> pyfloat" where
  "fmul_const (Fin r) c = double_of_rat (r * c)"
| "fmul_const x c = x"

fun fdiv_const :: "pyfloat \<Rightarrow> real \<Rightarrow> pyfloat" where
  "fdiv_const (Fin r) c = double_of_rat (r / c)"
| "fdiv_const x c = x"

fun fadd :: "pyfloat \<Rightarrow> pyfloat \<Rightarrow> pyfloat" where
  "fadd (Fin a) (Fin b) = double_of_rat (a + b)"
| "fadd NaN y = NaN"
| "fadd x NaN = NaN"
| "fadd PInf NInf = NaN"
| "fadd NInf PInf = NaN"
| "fadd PInf y = PInf"
| "fadd NInf y = NInf"
| "fadd (Fin a) y = y"

definition is_fin :: "pyfloat \<Rightarrow> bool" where
  "is_fin x = (case x of Fin r \<Rightarrow> True | _ \<Rightarrow> False)"

definition fin_val :: "pyfloat \<Rightarrow> real" where
  "fin_val x = (case x of Fin r \<Rightarrow> r | _ \<Rightarrow> 0)"

text \<open>
  \<open>statistics.mean\<close>: \<open>StatisticsError\<close> on no data; the exact sum of the finite values
  divided by the count and rounded once; with an infinity or a NaN among the data the
  finite values are ignored and the special values are added up.
\<close>

definition mean :: "pyfloat list \<Rightarrow> pyerr + pyfloat" where
  "mean xs = (if xs = [] then Inl StatisticsError
              else if list_all is_fin xs
                then Inr (double_of_rat (sum_list (map fin_val xs) / of_nat (length xs)))
              else (case filter (\<lambda>x. \<not> is_fin x) xs of
                      y # ys \<Rightarrow> Inr (foldl fadd y ys)
                    | [] \<Rightarrow> Inl StatisticsError))"

section \<open>The price parser\<close>

text \<open>
  \<open>float(num_s)\<close> on what the number pattern \<open>[0-9]+[\.,]?[0-9]*\<close> leaves after the comma
  handling: decimal digits, then possibly a dot and more digits. The value is the decimal
  number, correctly rounded. Any other string gives \<open>None\<close> here (the \<open>except\<close> branch).
\<close>

definition digits_val :: "ustr \<Rightarrow> nat" where
  "digits_val ds = foldl (\<lambda>n d. 10 * n + (d - 48)) 0 ds"

definition float_decimal :: "ustr \<Rightarrow> pyfloat option" where
  "float_decimal s =
     (let ip = takeWhile is_digit s; r = dropWhile is_digit s
      in if ip = [] then None
         else (case r of
                 [] \<Rightarrow> Some (double_of_rat (of_nat (digits_val ip)))
               | c # fp \<Rightarrow>
                   if c = 46 \<and> list_all is_digit fp
                   then Some (double_of_rat (of_nat (digits_val ip)
                                + of_nat (digits_val fp) / 10 ^ length fp))
                   else None))"

definition count_char :: "nat \<Rightarrow> ustr \<Rightarrow> nat" where
  "count_char c s = length (filter (\<lambda>x. x = c) s)"

text \<open>
  The characters kept by \<open>re.sub(r"[^0-9,\.\-\styU+1EF7tyrtriU+1EC7utrieuMHzKmBbKk]", ' ', raw)\<close>:
  digits, comma, dot, dash, white space and the letters
  \<open>t y U+1EF7 r i U+1EC7 u e M H z K m B b k\<close>.
\<close>

definition allowed :: "nat \<Rightarrow> bool" where
  "allowed c \<longleftrightarrow> is_digit c \<or> c = 44 \<or> c = 46 \<or> c = 45 \<or> isspace c
     \<or> c \<in> set (asc ''tyriueMHzKmBbk'') \<or> c = 0x1EF7 \<or> c = 0x1EC7"

definition normalize :: "ustr \<Rightarrow> ustr" where
  "normalize raw =
     (let raw1 = replace_char 0xA0 (asc '' '')
                   (replace_char 0x2014 (asc ''-'') (replace_char 0x2013 (asc ''-'') raw));
          raw2 = map (\<lambda>c. if allowed c then c else 32) raw1
      in strip raw2)"

text \<open>\<open>re.search(r'ty|t\u1ef5|tU+1EF7', low)\<close>\<close>

definition ty_pattern :: "ustr \<Rightarrow> bool" where
  "ty_pattern low \<longleftrightarrow> contains (asc ''ty'') low \<or> contains [116, 0x1EF5] low
     \<or> contains [116, 0x1EF7] low"

text \<open>
  The first unit detection: the three spellings of the million word are the precomposed
  one (\<open>tri U+1EC7 u\<close>), the ASCII one and the one with a combining dot below
  (\<open>tri U+00EA U+0323 u\<close>).
\<close>

definition detect_unit :: "ustr \<Rightarrow> unit_word option" where
  "detect_unit low =
     (if ty_pattern low then Some Ty
      else if contains (asc ''tri'' @ [0x1EC7] @ asc ''u'') low \<or> contains (asc ''trieu'') low
              \<or> contains (asc ''tri'' @ [0xEA, 0x323] @ asc ''u'') low then Some Trieu
      else None)"

text \<open>
  The length of the separator that \<open>\s*-\s*|\sto\s|\sU+2013\s\<close> matches at the start of
  the text, the alternatives tried in this order. The greedy \<open>\s*\<close> can only be followed by
  the dash after the whole run of white space, so backtracking never finds another match.
\<close>

definition match_dash :: "ustr \<Rightarrow> nat option" where
  "match_dash s =
     (let ws = takeWhile isspace s
      in (case dropWhile isspace s of
            [] \<Rightarrow> None
          | c # r \<Rightarrow> if c = 45 then Some (length ws + 1 + length (takeWhile isspace r))
                     else None))"

definition match_to :: "ustr \<Rightarrow> nat option" where
  "match_to s =
     (case s of
        a # b # c # d # _ \<Rightarrow>
          if isspace a \<and> b = 116 \<and> c = 111 \<and> isspace d then Some 4 else None
      | _ \<Rightarrow> None)"

definition match_endash :: "ustr \<Rightarrow> nat option" where
  "match_endash s =
     (case s of
        a # b # c # _ \<Rightarrow> if isspace a \<and> b = 0x2013 \<and> isspace c then Some 3 else None
      | _ \<Rightarrow> None)"

definition match_sep :: "ustr \<Rightarrow> nat option" where
  "match_sep s =
     (case match_dash s of
        Some n \<Rightarrow> Some n
      | None \<Rightarrow> (case match_to s of
                   Some n \<Rightarrow> Some n
                 | None \<Rightarrow> match_endash s))"

text \<open>
  \<open>re.split(r'\s*-\s*|\sto\s|\sU+2013\s', raw)\<close>: the text is scanned from the left; where
  a separator matches, the piece read so far is closed and the scan goes on behind the
  separator. \<open>acc\<close> holds the current piece, reversed.
\<close>

function split_go :: "ustr \<Rightarrow> ustr \<Rightarrow> ustr list" where
  "split_go acc [] = [rev acc]"
| "split_go acc (c # cs) =
     (case match_sep (c # cs) of
        Some n \<Rightarrow> rev acc # split_go [] (drop n (c # cs))
      | None \<Rightarrow> split_go (c # acc) cs)"
  by pat_completeness auto
termination
  by (relation "measure (\<lambda>(acc, s). length s)")
     (auto simp: match_sep_def match_dash_def match_to_def match_endash_def Let_def
           split: option.splits list.splits if_splits)

definition split_ranges :: "ustr \<Rightarrow> ustr list" where
  "split_ranges raw = split_go [] raw"

text \<open>\<open>re.search(r'[0-9]+[\.,]?[0-9]*', p)\<close> and its \<open>group(0)\<close>\<close>

definition number_match :: "ustr \<Rightarrow> ustr option" where
  "number_match p =
     (let r = dropWhile (\<lambda>c. \<not> is_digit c) p
      in if r = [] then None
         else let d1 = takeWhile is_digit r
              in (case dropWhile is_digit r of
                    [] \<Rightarrow> Some d1
                  | c # r2 \<Rightarrow> if c = 46 \<or> c = 44
                              then Some (d1 @ [c] @ takeWhile is_digit r2)
                              else Some d1))"

text \<open>The body of the loop over the parts; \<open>None\<close> is \<open>continue\<close>.\<close>

definition part_number :: "ustr \<Rightarrow> pyfloat option" where
  "part_number p0 =
     (let p = strip p0
      in if p = [] then None
         else (case number_match p of
                 None \<Rightarrow> None
               | Some m \<Rightarrow>
                   let num_s = (if count_char 44 m = 1 \<and> count_char 46 m = 0
                                then replace_char 44 (asc ''.'') m
                                else replace_char 44 [] m)
                   in float_decimal num_s))"

fun collect_nums :: "ustr list \<Rightarrow> pyfloat list" where
  "collect_nums [] = []"
| "collect_nums (p # ps) =
     (case part_number p of
        None \<Rightarrow> collect_nums ps
      | Some num \<Rightarrow> num # collect_nums ps)"

definition any_f :: "(pyfloat \<Rightarrow> bool) \<Rightarrow> pyfloat list \<Rightarrow> bool" where
  "any_f P nums = list_ex P nums"

text \<open>
  The inference of the unit when the first detection found none: the second scan for
  \<open>tri[eU+00EA]u|trieu\<close> and for the billion pattern, then the heuristics on the numbers.
\<close>

definition t_heuristic :: "ustr \<Rightarrow> pyfloat list \<Rightarrow> bool" where
  "t_heuristic low nums \<longleftrightarrow>
     any_f (\<lambda>x. flt x 100) nums
     \<and> (contains (asc ''ty'') low \<or> contains (asc '' t '') (asc '' '' @ low @ asc '' ''))"

definition infer_unit :: "ustr \<Rightarrow> pyfloat list \<Rightarrow> unit_word" where
  "infer_unit low nums =
     (if contains (asc ''trieu'') low \<or> contains (asc ''tri'' @ [0xEA] @ asc ''u'') low
      then Trieu
      else if ty_pattern low then Ty
      else if any_f (\<lambda>x. fgt x 1000) nums then Trieu
      else if t_heuristic low nums then Ty
      else if any_f (\<lambda>x. fle x 1000) nums then Ty else Trieu)"

text \<open>
  \<open>parse_price_to_million\<close>. The argument is \<open>None\<close> for a value that is not a \<open>str\<close>.
  In the branch of the negotiable marker the code evaluates \<open>raw.pd\<close> on a \<open>str\<close>,
  which raises \<open>AttributeError\<close> before anything is returned.
\<close>

definition negotiable :: "ustr \<Rightarrow> bool" where
  "negotiable low \<longleftrightarrow> contains (asc ''th'' @ [0x1ECF] @ asc ''a'') low
     \<or> contains (asc ''thoa'') low
     \<or> contains (asc ''th'' @ [0x1ECF] @ asc ''a thu'' @ [0x1EAD] @ asc ''n'') low"

definition parse_price_to_million :: "'a pylib_scheme \<Rightarrow> ustr option \<Rightarrow> pyerr + pyfloat option" where
  "parse_price_to_million L s =
     (case s of
        None \<Rightarrow> Inr None
      | Some s0 \<Rightarrow>
          let raw = strip s0
          in if raw = [] then Inr None
             else let low = lower L raw
                  in if negotiable low then Inl AttributeError
                     else let raw' = normalize raw;
                              unit = detect_unit low;
                              parts = split_ranges raw';
                              nums = collect_nums parts
                          in if nums = [] then Inr None
                             else let unit' = (case unit of
                                                 None \<Rightarrow> infer_unit low nums
                                               | Some u \<Rightarrow> u)
                                  in (case mean nums of
                                        Inl e \<Rightarrow> Inl e
                                      | Inr val \<Rightarrow>
                                          (case unit' of
                                             Ty \<Rightarrow> Inr (Some (fmul_const val 1000))
                                           | Trieu \<Rightarrow> Inr (Some val))))"

section \<open>Locations and districts\<close>

text \<open>\<open>re.sub(r'\s+', ' ', s)\<close>: every maximal run of white space becomes one space.\<close>

function collapse_ws :: "ustr \<Rightarrow> ustr" where
  "collapse_ws [] = []"
| "collapse_ws (c # cs) =
     (if isspace c then 32 # collapse_ws (dropWhile isspace cs) else c # collapse_ws cs)"
  by pat_completeness auto
termination
  by (relation "measure length") (auto simp: less_Suc_eq_le length_dropWhile_le)

definition clean_location :: "ustr option \<Rightarrow> ustr option" where
  "clean_location loc =
     (case loc of
        None \<Rightarrow> None
      | Some l \<Rightarrow>
          let s = strip (replace_char 10 (asc '' '') l);
              s = collapse_ws s
          in Some (strip_by (\<lambda>c. c = 32 \<or> c = 44) s))"

text \<open>
  One literal of a pattern compiled with \<open>re.I\<close> against one character of the text. The
  literals of the district pattern are letters, the space and the combining dot below
  \<open>U+0323\<close>. The last two have no case and match only themselves; a letter matches the
  characters with the same simple lower-case mapping, and \<open>i\<close> also the dotless
  \<open>U+0131\<close>, which \<open>re\<close> treats as its equivalent.
\<close>

definition ci_char :: "(nat \<Rightarrow> nat) \<Rightarrow> nat \<Rightarrow> nat \<Rightarrow> bool" where
  "ci_char lc p c \<longleftrightarrow>
     (if p = 32 \<or> p = 0x323 then c = p
      else if lc p = 105 then lc c = 105 \<or> lc c = 0x131
      else lc c = lc p)"

text \<open>The rest of the text behind a keyword that matches at its start.\<close>

fun ci_prefix :: "(nat \<Rightarrow> nat) \<Rightarrow> ustr \<Rightarrow> ustr \<Rightarrow> ustr option" where
  "ci_prefix lc [] s = Some s"
| "ci_prefix lc (p # ps) [] = None"
| "ci_prefix lc (p # ps) (c # cs) = (if ci_char lc p c then ci_prefix lc ps cs else None)"

text \<open>
  The alternatives of the group
  \<open>(QuU+1EADn|QuU+00E2U+0323n|Qu?n|HuyU+1EC7n|Huyen|ThU+1ECB xU+00E3|Thi xa|ThU+1ECB xU+00E3|ThU+1ECB XU+00E3)\<close>
  in the order in which the matcher tries them; the greedy \<open>Qu?n\<close> is \<open>Qun\<close>, then \<open>Qn\<close>.
\<close>

definition district_keywords :: "ustr list" where
  "district_keywords =
     [asc ''Qu'' @ [0x1EAD] @ asc ''n'',
      asc ''Qu'' @ [0xE2, 0x323] @ asc ''n'',
      asc ''Qun'',
      asc ''Qn'',
      asc ''Huy'' @ [0x1EC7] @ asc ''n'',
      asc ''Huyen'',
      asc ''Th'' @ [0x1ECB] @ asc '' x'' @ [0xE3],
      asc ''Thi xa'',
      asc ''Th'' @ [0x1ECB] @ asc '' x'' @ [0xE3],
      asc ''Th'' @ [0x1ECB] @ asc '' X'' @ [0xE3]]"

definition name_char :: "nat \<Rightarrow> bool" where
  "name_char c \<longleftrightarrow> c \<noteq> 44 \<and> c \<noteq> 10"

text \<open>
  \<open>\s+([^,\n]+)\<close> at the start of the text, as a length: the greedy \<open>\s+\<close> first takes the
  whole run of white space and gives characters back, one at a time and never the first,
  until a character of the name follows.
\<close>

fun tail_try :: "nat \<Rightarrow> ustr \<Rightarrow> nat option" where
  "tail_try 0 s = None"
| "tail_try (Suc j) s =
     (case drop (Suc j) s of
        [] \<Rightarrow> tail_try j s
      | c # r \<Rightarrow> if name_char c
                 then Some (Suc j + length (takeWhile name_char (c # r)))
                 else tail_try j s)"

definition name_tail :: "ustr \<Rightarrow> nat option" where
  "name_tail s = tail_try (length (takeWhile isspace s)) s"

text \<open>The length of the whole match at the start of the text, if one of the alternatives leads to one.\<close>

fun match_alts :: "(nat \<Rightarrow> nat) \<Rightarrow> ustr list \<Rightarrow> ustr \<Rightarrow> nat option" where
  "match_alts lc [] s = None"
| "match_alts lc (k # ks) s =
     (case ci_prefix lc k s of
        None \<Rightarrow> match_alts lc ks s
      | Some rest \<Rightarrow>
          (case name_tail rest of
             None \<Rightarrow> match_alts lc ks s
           | Some n \<Rightarrow> Some (length k + n)))"

text \<open>\<open>re.search\<close>: the leftmost position with a match; the result is \<open>m.group(0)\<close>.\<close>

fun search_district :: "(nat \<Rightarrow> nat) \<Rightarrow> ustr \<Rightarrow> ustr option" where
  "search_district lc [] = None"
| "search_district lc (c # cs) =
     (case match_alts lc district_keywords (c # cs) of
        Some n \<Rightarrow> Some (take n (c # cs))
      | None \<Rightarrow> search_district lc cs)"

definition extract_district :: "'a pylib_scheme \<Rightarrow> ustr option \<Rightarrow> ustr option" where
  "extract_district L loc =
     (case loc of
        None \<Rightarrow> None
      | Some s \<Rightarrow>
          (case search_district (tolower L) s of
             Some m \<Rightarrow> Some (strip m)
           | None \<Rightarrow>
               if 44 \<in> set s then Some (strip (takeWhile (\<lambda>c. c \<noteq> 44) s))
               else Some (strip s)))"

definition remove_emojis :: "ustr \<Rightarrow> ustr" where
  "remove_emojis t = filter (\<lambda>c. \<not> (0x10000 \<le> c \<and> c \<le> 0x10FFFF)) t"

section \<open>The cleaning pass\<close>

text \<open>
  A row of the input table as \<open>pd.read_csv(INPUT, dtype=str)\<close> delivers it: every cell is
  a \<open>str\<close>, or missing (\<open>None\<close> here, NaN in pandas).
\<close>

record listing =
  url :: "ustr option"
  title :: "ustr option"
  price_raw :: "ustr option"
  price_vnd :: "ustr option"
  location :: "ustr option"
  area_m2 :: "ustr option"
  snippet :: "ustr option"

text \<open>
  A row of the two output tables, with the columns of \<open>out_cols\<close>. In the float columns
  NaN is the absent value, as in pandas.
\<close>

record out_row =
  o_title :: ustr
  o_url :: "ustr option"
  price_raw_orig :: "ustr option"
  price_million_final :: pyfloat
  price_billion :: pyfloat
  price_vnd_original :: pyfloat
  o_location :: "ustr option"
  district :: "ustr option"
  o_area_m2 :: pyfloat
  o_snippet :: ustr

text \<open>\<open>isna\<close> on a float cell\<close>

definition isna :: "pyfloat \<Rightarrow> bool" where
  "isna x \<longleftrightarrow> x = NaN"

text \<open>A float-or-\<open>None\<close> result of \<open>map\<close> stored in a float column.\<close>

definition to_cell :: "pyfloat option \<Rightarrow> pyfloat" where
  "to_cell v = (case v of None \<Rightarrow> NaN | Some x \<Rightarrow> x)"

text \<open>\<open>df.drop_duplicates(subset=['url'])\<close>: a row is kept unless its url was seen before.\<close>

fun drop_dups :: "ustr option list \<Rightarrow> listing list \<Rightarrow> listing list" where
  "drop_dups seen [] = []"
| "drop_dups seen (r # rs) =
     (if url r \<in> set seen then drop_dups seen rs else r # drop_dups (url r # seen) rs)"

definition drop_duplicates :: "listing list \<Rightarrow> listing list" where
  "drop_duplicates df = drop_dups [] df"

text \<open>
  \<open>safe_float\<close>: \<open>float(x)\<close>, or \<open>None\<close> where it raises. On a missing cell \<open>x\<close> is the
  float NaN and \<open>float(x)\<close> is NaN.
\<close>

definition safe_float :: "'a pylib_scheme \<Rightarrow> ustr option \<Rightarrow> pyfloat option" where
  "safe_float L x = (case x of None \<Rightarrow> Some NaN | Some s \<Rightarrow> float_of L s)"

text \<open>
  The column assignments of \<open>main\<close> between the removal of duplicates and \<open>out\<close>, on one
  row. Only the price parser can raise; its exception ends the run.
\<close>

definition clean_row :: "'a pylib_scheme \<Rightarrow> listing \<Rightarrow> pyerr + out_row" where
  "clean_row L r =
     (let title' = strip (remove_emojis (case title r of None \<Rightarrow> asc ''nan'' | Some t \<Rightarrow> t))
      in (case parse_price_to_million L (price_raw r) of
            Inl e \<Rightarrow> Inl e
          | Inr pm \<Rightarrow>
              let price_million = to_cell pm;
                  price_billion' = (if isna price_million then NaN
                                    else fdiv_const price_million 1000);
                  price_vnd_original' = to_cell (safe_float L (price_vnd r));
                  price_million_final' =
                    (if isna price_million \<and> \<not> isna price_vnd_original'
                     then price_vnd_original' else price_million);
                  area = to_numeric L (area_m2 r);
                  area' = (if fle area 0 \<or> fgt area 2000 then NaN else area);
                  location' = clean_location (location r);
                  district' = extract_district L location';
                  snippet' = strip (case snippet r of None \<Rightarrow> [] | Some t \<Rightarrow> t)
              in Inr \<lparr> o_title = title', o_url = url r, price_raw_orig = price_raw r,
                      price_million_final = price_million_final',
                      price_billion = price_billion',
                      price_vnd_original = price_vnd_original',
                      o_location = location', district = district',
                      o_area_m2 = area', o_snippet = snippet' \<rparr>))"

fun clean_rows :: "'a pylib_scheme \<Rightarrow> listing list \<Rightarrow> pyerr + out_row list" where
  "clean_rows L [] = Inr []"
| "clean_rows L (r # rs) =
     (case clean_row L r of
        Inl e \<Rightarrow> Inl e
      | Inr o1 \<Rightarrow> (case clean_rows L rs of Inl e \<Rightarrow> Inl e | Inr os \<Rightarrow> Inr (o1 # os)))"

text \<open>The order of the floats that are not NaN, and insertion sort by it.\<close>

fun f_le :: "pyfloat \<Rightarrow> pyfloat \<Rightarrow> bool" where
  "f_le (Fin a) (Fin b) = (a \<le> b)"
| "f_le NInf y = True"
| "f_le x PInf = True"
| "f_le x y = False"

fun f_insort :: "pyfloat \<Rightarrow> pyfloat list \<Rightarrow> pyfloat list" where
  "f_insort x [] = [x]"
| "f_insort x (y # ys) = (if f_le x y then x # y # ys else y # f_insort x ys)"

definition f_sort :: "pyfloat list \<Rightarrow> pyfloat list" where
  "f_sort xs = foldr f_insort xs []"

text \<open>
  \<open>Series.median()\<close>: NaN is skipped; the middle value of the sorted rest, or the mean of
  the two middle values; NaN when nothing is left.
\<close>

definition median :: "pyfloat list \<Rightarrow> pyfloat" where
  "median xs =
     (let ys = f_sort (filter (\<lambda>x. \<not> isna x) xs); n = length ys
      in if n = 0 then NaN
         else if odd n then ys ! (n div 2)
         else fdiv_const (fadd (ys ! (n div 2 - 1)) (ys ! (n div 2))) 2)"

text \<open>\<open>out_imputed\<close>: the area column with \<open>fillna(area_med)\<close>.\<close>

definition impute :: "out_row list \<Rightarrow> out_row list" where
  "impute out =
     (let area_med = median (map o_area_m2 out)
      in map (\<lambda>r. r\<lparr> o_area_m2 := (if isna (o_area_m2 r) then area_med else o_area_m2 r) \<rparr>)
             out)"

text \<open>\<open>main\<close>: the two tables written, or the exception that ended the run.\<close>

definition main :: "'a pylib_scheme \<Rightarrow> listing list \<Rightarrow> pyerr + (out_row list \<times> out_row list)" where
  "main L df =
     (case clean_rows L (drop_duplicates df) of
        Inl e \<Rightarrow> Inl e
      | Inr out \<Rightarrow> Inr (out, impute out))"

section \<open>Predicates of the statements\<close>

text \<open>A float that is neither negative nor NaN: a finite value from zero on, or plus infinity.\<close>

definition nonneg_f :: "pyfloat \<Rightarrow> bool" where
  "nonneg_f x = (case x of Fin r \<Rightarrow> 0 \<le> r | PInf \<Rightarrow> True | NInf \<Rightarrow> False | NaN \<Rightarrow> False)"

section \<open>A library instance for concrete inputs\<close>

text \<open>
  An instance of the runtime functions that agrees with Python on the inputs evaluated
  below: lower-casing of ASCII, Latin-1 and the Vietnamese letters (every other code point
  is left as it is), \<open>float\<close> on plain decimal numbers and on the spellings of \<open>nan\<close>,
  and \<open>to_numeric\<close> on plain decimal numbers.
\<close>

definition lower_cp :: "nat \<Rightarrow> nat" where
  "lower_cp c =
     (if 65 \<le> c \<and> c \<le> 90 then c + 32
      else if 0xC0 \<le> c \<and> c \<le> 0xDE \<and> c \<noteq> 0xD7 then c + 32
      else if c \<in> {0x102, 0x110, 0x128, 0x168, 0x1A0, 0x1AF} then c + 1
      else if 0x1EA0 \<le> c \<and> c \<le> 0x1EFF \<and> even c then c + 1
      else c)"

definition float_simple :: "ustr \<Rightarrow> pyfloat option" where
  "float_simple s = (if map lower_cp (strip s) = asc ''nan'' then Some NaN
                     else float_decimal (strip s))"

definition vn_lib :: pylib where
  "vn_lib = \<lparr> lower = map lower_cp, tolower = lower_cp, float_of = float_simple,
              to_numeric = (\<lambda>c. case c of None \<Rightarrow> NaN
                                 | Some s \<Rightarrow> (case float_decimal s of None \<Rightarrow> NaN
                                             | Some x \<Rightarrow> x)) \<rparr>"

section \<open>Evaluation rules\<close>

lemma bit_length_0: "bit_length 0 = 0"
  by (simp add: bit_length.simps)

lemma bit_length_1: "bit_length 1 = 1"
  by (simp add: bit_length.simps)

lemma bit_length_Suc0: "bit_length (Suc 0) = 1"
  by (simp add: bit_length.simps)

lemma bit_length_num: "bit_length (numeral k) = Suc (bit_length (numeral k div 2))"
  by (subst bit_length.simps) simp

lemmas fl_defs = double_of_rat_def round_mag_def ilog2_def bit_length_0 bit_length_1
  bit_length_Suc0 bit_length_num pow2_def round_half_even_def Let_def

lemmas str_defs = asc_def isspace_def strip_def strip_by_def replace_char_def is_digit_def
  allowed_def count_char_def

lemmas parse_defs = parse_price_to_million_def negotiable_def normalize_def detect_unit_def
  ty_pattern_def split_ranges_def match_sep_def match_dash_def match_to_def match_endash_def
  part_number_def number_match_def float_decimal_def digits_val_def mean_def infer_unit_def
  t_heuristic_def any_f_def is_fin_def fin_val_def vn_lib_def lower_cp_def

section \<open>The price parser: properties\<close>

text \<open>
  C1. The claim: on every text that contains a negotiable marker, \<open>parse_price_to_million\<close>
  returns \<open>None\<close>. The code does not: on \<open>ThU+1ECFa thuU+1EADn\<close>, the spelling of the
  docstring, the branch of the marker evaluates \<open>raw.pd\<close> on a \<open>str\<close> and the call ends
  with \<open>AttributeError\<close>; nothing is returned.
\<close>

theorem parse_price_negotiable_raises:
  "parse_price_to_million vn_lib
     (Some [0x54, 0x68, 0x1ECF, 0x61, 0x20, 0x74, 0x68, 0x75, 0x1EAD, 0x6E])
   = Inl AttributeError"
  by (simp add: parse_defs str_defs)

text \<open>
  C4. The three examples: \<open>58 TriU+1EC7u\<close> gives 58.0, \<open>12,5 TU+1EF7\<close> gives 12500.0, and
  the range \<open>5 - 5,2 TU+1EF7\<close> gives 5100.0, each with the roundings of the float
  operations carried out.
\<close>

theorem parse_price_examples:
  "parse_price_to_million vn_lib (Some (asc ''58 Tri'' @ [0x1EC7] @ asc ''u''))
     = Inr (Some (Fin 58))
   \<and> parse_price_to_million vn_lib (Some (asc ''12,5 T'' @ [0x1EF7])) = Inr (Some (Fin 12500))
   \<and> parse_price_to_million vn_lib (Some (asc ''5 - 5,2 T'' @ [0x1EF7]))
     = Inr (Some (Fin 5100))"
proof -
  have a: "parse_price_to_million vn_lib (Some (asc ''58 Tri'' @ [0x1EC7] @ asc ''u''))
             = Inr (Some (Fin 58))"
    by (simp add: parse_defs str_defs fl_defs)
  have b: "parse_price_to_million vn_lib (Some (asc ''12,5 T'' @ [0x1EF7]))
             = Inr (Some (Fin 12500))"
    by (simp add: parse_defs str_defs fl_defs)
  have c: "parse_price_to_million vn_lib (Some (asc ''5 - 5,2 T'' @ [0x1EF7]))
             = Inr (Some (Fin 5100))"
    by (simp add: parse_defs str_defs fl_defs)
  from a b c show ?thesis by blast
qed

subsection \<open>Every number read is non-negative\<close>

lemma pow2_pos: "0 < pow2 e"
  by (simp add: pow2_def)

lemma round_half_even_nonneg: "0 \<le> x \<Longrightarrow> 0 \<le> round_half_even x"
  by (auto simp: round_half_even_def Let_def)

lemma round_mag_nonneg: "0 \<le> a \<Longrightarrow> round_mag a = Some v \<Longrightarrow> 0 \<le> v"
proof -
  assume a: "0 \<le> a" and r: "round_mag a = Some v"
  define q where "q = pow2 (max (ilog2 a) (- 1022) - 52)"
  have q: "0 < q" by (simp add: q_def pow2_pos)
  then have "0 \<le> a / q" using a by simp
  then have "0 \<le> round_half_even (a / q)" by (rule round_half_even_nonneg)
  then have "0 \<le> of_int (round_half_even (a / q)) * q" using q by simp
  moreover from r have "v = 0 \<or> v = of_int (round_half_even (a / q)) * q"
    by (auto simp: round_mag_def Let_def q_def split: if_splits)
  ultimately show ?thesis by auto
qed

lemma double_of_rat_nonneg: "0 \<le> r \<Longrightarrow> nonneg_f (double_of_rat r)"
  by (auto simp: double_of_rat_def nonneg_f_def split: option.splits dest: round_mag_nonneg)

lemma float_decimal_nonneg: "float_decimal s = Some x \<Longrightarrow> nonneg_f x"
  by (auto simp: float_decimal_def Let_def split: if_splits list.splits intro!: double_of_rat_nonneg)

lemma part_number_nonneg: "part_number p = Some x \<Longrightarrow> nonneg_f x"
  by (auto simp: part_number_def Let_def split: if_splits option.splits dest: float_decimal_nonneg)

lemma collect_nums_nonneg: "x \<in> set (collect_nums ps) \<Longrightarrow> nonneg_f x"
  by (induction ps) (auto split: option.splits dest: part_number_nonneg)




lemma mean_returns: "xs \<noteq> [] \<Longrightarrow> \<exists>v. mean xs = Inr v"
  by (auto simp: mean_def list_all_iff filter_empty_conv split: list.splits)




text \<open>
  C2. The claim: no exception leaves the parser. The code raises exactly on the inputs of
  the negotiable branch: the result is an exception if and only if the trimmed text is not
  empty and its lower-case form contains a marker, and the exception is
  \<open>AttributeError\<close>; on every other input a value is returned.
\<close>

theorem parse_price_raises_iff:
  "parse_price_to_million L x = Inl e \<longleftrightarrow>
     e = AttributeError \<and> (\<exists>s. x = Some s \<and> strip s \<noteq> [] \<and> negotiable (lower L (strip s)))"
proof (cases x)
  case None
  then show ?thesis by (simp add: parse_price_to_million_def)
next
  case (Some s)
  define nums where "nums = collect_nums (split_ranges (normalize (strip s)))"
  show ?thesis
  proof (cases "nums = []")
    case True
    with Some show ?thesis
      by (auto simp: parse_price_to_million_def Let_def nums_def[symmetric])
  next
    case False
    from mean_returns[OF False] obtain m where "mean nums = Inr m" by blast
    with Some False show ?thesis
      by (auto simp: parse_price_to_million_def Let_def nums_def[symmetric]
               split: option.splits unit_word.splits)
  qed
qed

theorem parse_price_raises_iff_witness:
  "parse_price_to_million vn_lib (Some (asc ''Gia thoa thuan'')) = Inl AttributeError
   \<and> (\<forall>e. parse_price_to_million vn_lib (Some (asc ''58 trieu'')) \<noteq> Inl e)"
proof -
  have s1: "strip (asc ''Gia thoa thuan'') = asc ''Gia thoa thuan''" by (simp add: str_defs)
  have n1: "negotiable (lower vn_lib (asc ''Gia thoa thuan''))"
    by (simp add: negotiable_def vn_lib_def lower_cp_def asc_def)
  have s2: "strip (asc ''58 trieu'') = asc ''58 trieu''" by (simp add: str_defs)
  have n2: "\<not> negotiable (lower vn_lib (asc ''58 trieu''))"
    by (simp add: negotiable_def vn_lib_def lower_cp_def asc_def)
  have a: "parse_price_to_million vn_lib (Some (asc ''Gia thoa thuan'')) = Inl AttributeError"
    using parse_price_raises_iff[of vn_lib "Some (asc ''Gia thoa thuan'')" AttributeError] s1 n1
    by (simp add: asc_def)
  have b: "\<forall>e. parse_price_to_million vn_lib (Some (asc ''58 trieu'')) \<noteq> Inl e"
    using parse_price_raises_iff[of vn_lib "Some (asc ''58 trieu'')"] s2 n2 by simp
  from a b show ?thesis by blast
qed

subsection \<open>Texts of digits only\<close>



















subsection \<open>The default of the unit inference\<close>

lemma nonneg_not_gt_le: "nonneg_f x \<Longrightarrow> \<not> fgt x c \<Longrightarrow> fle x c"
  by (cases x) (auto simp: nonneg_f_def)

text \<open>
  C5. Where the first detection and the second scan find no unit word, at least one number
  was read, no number exceeds 1000 and the heuristic of the standalone \<open>t\<close> or \<open>ty\<close>
  does not apply, the unit is the billion exactly when all numbers are at most 1000, and
  the million otherwise; the result is the mean converted with that unit. (Under these
  hypotheses all numbers are at most 1000, so the unit is the billion.)
\<close>

theorem infer_unit_default:
  fixes L :: "'a pylib_scheme"
  assumes low: "low = lower L (strip s)"
    and nums: "nums = collect_nums (split_ranges (normalize (strip s)))"
    and nonempty: "strip s \<noteq> []"
    and no_marker: "\<not> negotiable low"
    and no_unit: "detect_unit low = None"
    and no_unit2: "\<not> contains (asc ''trieu'') low"
                  "\<not> contains (asc ''tri'' @ [0xEA] @ asc ''u'') low"
    and some_num: "nums \<noteq> []"
    and none_large: "\<not> any_f (\<lambda>x. fgt x 1000) nums"
    and no_t: "\<not> t_heuristic low nums"
  shows "(infer_unit low nums = Ty \<longleftrightarrow> list_all (\<lambda>x. fle x 1000) nums)
       \<and> (infer_unit low nums = Trieu \<longleftrightarrow> \<not> list_all (\<lambda>x. fle x 1000) nums)
       \<and> (\<exists>v. mean nums = Inr v
              \<and> parse_price_to_million L (Some s)
                  = Inr (Some (if list_all (\<lambda>x. fle x 1000) nums
                               then fmul_const v 1000 else v)))"
proof -
  have nn: "\<forall>x\<in>set nums. nonneg_f x" by (auto simp: nums dest: collect_nums_nonneg)
  from none_large have "\<forall>x\<in>set nums. \<not> fgt x 1000" by (simp add: any_f_def list_ex_iff)
  with nn have all: "list_all (\<lambda>x. fle x 1000) nums"
    by (auto simp: list_all_iff intro: nonneg_not_gt_le)
  with some_num have ex: "any_f (\<lambda>x. fle x 1000) nums"
    by (cases nums) (auto simp: any_f_def)
  from no_unit have nty: "\<not> ty_pattern low" by (auto simp: detect_unit_def split: if_splits)
  have iu: "infer_unit low nums = Ty"
    using no_unit2 nty none_large no_t ex by (simp add: infer_unit_def)
  from mean_returns[OF some_num] obtain v where v: "mean nums = Inr v" by blast
  have "parse_price_to_million L (Some s) = Inr (Some (fmul_const v 1000))"
    using nonempty no_marker no_unit some_num iu v
    by (simp add: parse_price_to_million_def Let_def low[symmetric] nums[symmetric])
  with all iu v show ?thesis by simp
qed

theorem infer_unit_default_witness:
  "infer_unit (asc ''500'') [Fin 500] = Ty
   \<and> list_all (\<lambda>x. fle x 1000) [Fin 500]
   \<and> parse_price_to_million vn_lib (Some (asc ''500'')) = Inr (Some (Fin 500000))"
proof -
  have low: "asc ''500'' = lower vn_lib (strip (asc ''500''))"
    by (simp add: vn_lib_def lower_cp_def str_defs)
  have nums: "[Fin 500] = collect_nums (split_ranges (normalize (strip (asc ''500''))))"
    by (simp add: parse_defs str_defs fl_defs)
  have h1: "strip (asc ''500'') \<noteq> []" by (simp add: str_defs)
  have h2: "\<not> negotiable (asc ''500'')" by (simp add: negotiable_def asc_def)
  have h3: "detect_unit (asc ''500'') = None" by (simp add: detect_unit_def ty_pattern_def asc_def)
  have h4: "\<not> contains (asc ''trieu'') (asc ''500'')" by (simp add: asc_def)
  have h5: "\<not> contains (asc ''tri'' @ [0xEA] @ asc ''u'') (asc ''500'')" by (simp add: asc_def)
  have h6: "[Fin 500] \<noteq> []" by simp
  have h7: "\<not> any_f (\<lambda>x. fgt x 1000) [Fin 500]" by (simp add: any_f_def)
  have h8: "\<not> t_heuristic (asc ''500'') [Fin 500]" by (simp add: t_heuristic_def any_f_def)
  have m: "mean [Fin 500] = Inr (Fin 500)" by (simp add: mean_def is_fin_def fin_val_def fl_defs)
  have f: "fmul_const (Fin 500) 1000 = Fin 500000" by (simp add: fl_defs)
  from infer_unit_default[OF low nums h1 h2 h3 h4 h5 h6 h7 h8] m f show ?thesis by auto
qed

end
